theory Spec2Isabelle
  imports Complex_Main "HOL-Library.Char_ord" "HOL-Library.List_Lexorder"
begin

section \<open>Numeric values\<close>

text \<open>
  The cells of a pandas frame and the entries of a numpy array are IEEE doubles. The model
  keeps the special values and drops the rounding: a finite value is an exact real, and
  \<open>PosInf\<close>, \<open>NegInf\<close> and \<open>NaN\<close> behave as numpy's \<open>inf\<close>, \<open>-inf\<close> and \<open>nan\<close> do
  (division by zero gives an infinity or \<open>nan\<close>, it does not raise). Signed zeros and
  overflow are not modelled.
\<close>

datatype npfloat = Num real | PosInf | NegInf | NaN

fun isnan :: "npfloat \<Rightarrow> bool" where
  "isnan NaN = True"
| "isnan _ = False"

fun isfinite :: "npfloat \<Rightarrow> bool" where
  "isfinite (Num a) = True"
| "isfinite _ = False"

fun the_num :: "npfloat \<Rightarrow> real" where
  "the_num (Num a) = a"
| "the_num _ = 0"

fun fneg :: "npfloat \<Rightarrow> npfloat" where
  "fneg (Num a) = Num (- a)"
| "fneg PosInf = NegInf"
| "fneg NegInf = PosInf"
| "fneg NaN = NaN"

fun fadd :: "npfloat \<Rightarrow> npfloat \<Rightarrow> npfloat" where
  "fadd (Num a) (Num b) = Num (a + b)"
| "fadd NaN y = NaN"
| "fadd x NaN = NaN"
| "fadd PosInf NegInf = NaN"
| "fadd NegInf PosInf = NaN"
| "fadd PosInf y = PosInf"
| "fadd x PosInf = PosInf"
| "fadd NegInf y = NegInf"
| "fadd x NegInf = NegInf"

definition fsub :: "npfloat \<Rightarrow> npfloat \<Rightarrow> npfloat" where
  "fsub x y = fadd x (fneg y)"

fun fmul :: "npfloat \<Rightarrow> npfloat \<Rightarrow> npfloat" where
  "fmul (Num a) (Num b) = Num (a * b)"
| "fmul NaN y = NaN"
| "fmul x NaN = NaN"
| "fmul PosInf (Num b) = (if b = 0 then NaN else if 0 < b then PosInf else NegInf)"
| "fmul NegInf (Num b) = (if b = 0 then NaN else if 0 < b then NegInf else PosInf)"
| "fmul (Num a) PosInf = (if a = 0 then NaN else if 0 < a then PosInf else NegInf)"
| "fmul (Num a) NegInf = (if a = 0 then NaN else if 0 < a then NegInf else PosInf)"
| "fmul PosInf PosInf = PosInf"
| "fmul NegInf NegInf = PosInf"
| "fmul PosInf NegInf = NegInf"
| "fmul NegInf PosInf = NegInf"

fun fdiv :: "npfloat \<Rightarrow> npfloat \<Rightarrow> npfloat" where
  "fdiv (Num a) (Num b) =
     (if b = 0 then (if a = 0 then NaN else if 0 < a then PosInf else NegInf)
      else Num (a / b))"
| "fdiv NaN y = NaN"
| "fdiv x NaN = NaN"
| "fdiv (Num a) PosInf = Num 0"
| "fdiv (Num a) NegInf = Num 0"
| "fdiv PosInf (Num b) = (if b < 0 then NegInf else PosInf)"
| "fdiv NegInf (Num b) = (if b < 0 then PosInf else NegInf)"
| "fdiv PosInf y = NaN"
| "fdiv NegInf y = NaN"

fun fsqrt :: "npfloat \<Rightarrow> npfloat" where
  "fsqrt (Num a) = (if a < 0 then NaN else Num (sqrt a))"
| "fsqrt PosInf = PosInf"
| "fsqrt NegInf = NaN"
| "fsqrt NaN = NaN"

text \<open>\<open>np.sum\<close> of a one-dimensional array: \<open>nan\<close> and the infinities propagate.\<close>

definition np_sum :: "npfloat list \<Rightarrow> npfloat" where
  "np_sum xs = foldr fadd xs (Num 0)"

definition dot :: "npfloat list \<Rightarrow> npfloat list \<Rightarrow> npfloat" where
  "dot xs ys = np_sum (map2 fmul xs ys)"

text \<open>
  \<open>Series.mean()\<close> with pandas' default \<open>skipna=True\<close>: the mean of the cells that are
  not \<open>nan\<close>, and \<open>nan\<close> when there is none.
\<close>

definition pd_mean :: "npfloat list \<Rightarrow> npfloat" where
  "pd_mean xs =
     (let v = filter (\<lambda>x. \<not> isnan x) xs
      in if v = [] then NaN else fdiv (np_sum v) (Num (real (length v))))"

text \<open>
  \<open>Series.std()\<close> with pandas' defaults \<open>skipna=True\<close>, \<open>ddof=1\<close>: the sample standard
  deviation of the cells that are not \<open>nan\<close>, and \<open>nan\<close> when there are fewer than two.
\<close>

definition pd_std :: "npfloat list \<Rightarrow> npfloat" where
  "pd_std xs =
     (let v = filter (\<lambda>x. \<not> isnan x) xs;
          count = length v
      in if count \<le> 1 then NaN
         else let avg = fdiv (np_sum v) (Num (real count));
                  sqr = map (\<lambda>x. fmul (fsub avg x) (fsub avg x)) v
              in fsqrt (fdiv (np_sum sqr) (Num (real (count - 1)))))"

section \<open>Matrices\<close>

type_synonym matrix = "npfloat list list"

text \<open>
  What the module raises. The first five are the \<open>ValueError\<close>s that the module raises
  itself: fewer than two factors; a return type that is not supported; a signal table
  without the return column; an unknown \<open>standardize_type\<close>; an unknown \<open>weighted_method\<close>.
  The others come from the libraries: the \<open>ValueError\<close>s of \<open>pd.concat\<close> on an empty list and
  of a shape that does not fit, \<open>KeyError\<close>, \<open>IndexError\<close>, \<open>TypeError\<close>, and numpy's
  \<open>LinAlgError\<close>.
\<close>

datatype error =
    TooFewFactors
  | UnsupportedRetType
  | MissingReturnColumn
  | BadStandardizeType
  | BadWeightedMethod
  | NoObjectsToConcatenate
  | LengthMismatch
  | KeyError
  | IndexError
  | TypeError
  | LinAlgError

text \<open>
  \<open>np.cov(m)\<close> for a matrix whose rows are the variables and whose columns are the
  observations: each row is centred on its plain mean, and the products are scaled by
  \<open>1 / (n - 1)\<close>; with fewer than two observations numpy sets the divisor to \<open>0.0\<close>.
\<close>

definition np_cov :: "matrix \<Rightarrow> matrix" where
  "np_cov m =
     (let n = (case m of [] \<Rightarrow> 0 | r # _ \<Rightarrow> length r);
          X = map (\<lambda>r. map (\<lambda>x. fsub x (fdiv (np_sum r) (Num (real n)))) r) m;
          fact = (if n \<le> 1 then 0 else real (n - 1))
      in map (\<lambda>xi. map (\<lambda>xj. fmul (dot xi xj) (fdiv (Num 1) (Num fact))) X) X)"

definition del :: "nat \<Rightarrow> 'a list \<Rightarrow> 'a list" where
  "del j xs = take j xs @ drop (Suc j) xs"

text \<open>The determinant of a square real matrix, by expansion along the first row.\<close>

function det :: "real list list \<Rightarrow> real" where
  "det [] = 1"
| "det (r # rs) =
     sum_list (map (\<lambda>j. (- 1) ^ j * (r ! j) * det (map (del j) rs)) [0..<length r])"
  by pat_completeness auto
termination
  by (relation "measure length") auto

definition is_square :: "'a list list \<Rightarrow> bool" where
  "is_square m = list_all (\<lambda>r. length r = length m) m"

definition all_finite :: "matrix \<Rightarrow> bool" where
  "all_finite m = list_all (list_all isfinite) m"


text \<open>
  \<open>np.linalg.inv\<close>: raises \<open>LinAlgError\<close> for a matrix that is not square or is singular;
  a \<open>nan\<close> or infinite entry does not raise, it turns the result into \<open>nan\<close>. Otherwise
  the inverse, here by the adjugate.
\<close>

definition np_linalg_inv :: "matrix \<Rightarrow> error + matrix" where
  "np_linalg_inv m =
     (if \<not> is_square m then Inl LinAlgError
      else if \<not> all_finite m then Inr (map (map (\<lambda>x. NaN)) m)
      else let a = map (map the_num) m; d = det a; k = length m
           in if d = 0 then Inl LinAlgError
              else Inr (map (\<lambda>i. map (\<lambda>j.
                     Num ((- 1) ^ (i + j) * det (map (del i) (del j a)) / d)) [0..<k]) [0..<k]))"

definition mat_vec :: "matrix \<Rightarrow> npfloat list \<Rightarrow> npfloat list" where
  "mat_vec a v = map (\<lambda>r. dot r v) a"

section \<open>Frames\<close>

text \<open>
  A \<open>pd.DataFrame\<close>: the column labels and the rows, each row with its index label. A
  factor panel has dates for its index and assets for its columns; the IC matrix and the
  weight matrix have dates for their index and factor names for their columns.
\<close>

record ('r, 'c) frame =
  columns :: "'c list"
  rows :: "('r \<times> npfloat list) list"

type_synonym date = int
type_synonym factor_name = string

definition index :: "('r, 'c) frame \<Rightarrow> 'r list" where
  "index f = map fst (rows f)"

definition as_matrix :: "('r \<times> npfloat list) list \<Rightarrow> matrix" where
  "as_matrix rs = map snd rs"

text \<open>The transposed value matrix of \<open>k\<close> columns: one list per column.\<close>

definition cols_of :: "nat \<Rightarrow> ('r \<times> npfloat list) list \<Rightarrow> matrix" where
  "cols_of k rs = map (\<lambda>j. map (\<lambda>(d, r). r ! j) rs) [0..<k]"

text \<open>\<open>pd.DataFrame(index=idx, columns=cols)\<close>: every cell is \<open>nan\<close>.\<close>

definition nan_frame :: "'r list \<Rightarrow> 'c list \<Rightarrow> ('r, 'c) frame" where
  "nan_frame idx cols =
     \<lparr>columns = cols, rows = map (\<lambda>d. (d, replicate (length cols) NaN)) idx\<rparr>"

text \<open>\<open>weight_df.ix[dt] = w\<close>: the row labelled \<open>dt\<close> is overwritten.\<close>

definition set_row :: "'r \<Rightarrow> npfloat list \<Rightarrow> ('r, 'c) frame \<Rightarrow> ('r, 'c) frame" where
  "set_row dt w f = f\<lparr>rows := map (\<lambda>(d, r). if d = dt then (d, w) else (d, r)) (rows f)\<rparr>"

text \<open>
  \<open>df.tail(n)\<close>: no row for \<open>n = 0\<close>, otherwise \<open>df.iloc[-n:]\<close>, which is the last \<open>n\<close>
  rows for a positive \<open>n\<close> and all but the first \<open>-n\<close> rows for a negative one.
\<close>

definition tail :: "int \<Rightarrow> 'a list \<Rightarrow> 'a list" where
  "tail n xs =
     (if n = 0 then []
      else if 0 < n then drop (length xs - nat n) xs
      else drop (nat (- n)) xs)"

text \<open>
  \<open>df.shift(h)\<close>: the index stays, the rows of values move down by \<open>h\<close> (up for a
  negative \<open>h\<close>), and the rows left free are filled with \<open>nan\<close>.
\<close>

definition shift :: "int \<Rightarrow> ('r, 'c) frame \<Rightarrow> ('r, 'c) frame" where
  "shift h f =
     (let vals = map snd (rows f);
          len = length vals;
          fill = replicate (length (columns f)) NaN;
          vals' = (if 0 \<le> h then replicate (min (nat h) len) fill @ take (len - nat h) vals
                   else drop (nat (- h)) vals @ replicate (min (nat (- h)) len) fill)
      in f\<lparr>rows := zip (map fst (rows f)) vals'\<rparr>)"

section \<open>The weight schemes\<close>

text \<open>\<open>ic_df[ic_df.index <= dt].tail(n)\<close>\<close>

definition window :: "('r::linorder, 'c) frame \<Rightarrow> 'r \<Rightarrow> int \<Rightarrow> ('r \<times> npfloat list) list" where
  "window ic_df dt n = tail n (filter (\<lambda>(d, r). d \<le> dt) (rows ic_df))"

text \<open>\<open>weight / np.sum(weight)\<close>\<close>

definition div_by_sum :: "npfloat list \<Rightarrow> npfloat list" where
  "div_by_sum weight = map (\<lambda>x. fdiv x (np_sum weight)) weight"

text \<open>
  The loop \<open>for dt in ic_df.index\<close> of the four weight functions. The body either raises,
  or skips the date (\<open>continue\<close>), or ends in \<open>weight_df.ix[dt] = w\<close>.
\<close>

fun for_each_date ::
  "('r \<Rightarrow> error + npfloat list option) \<Rightarrow> 'r list \<Rightarrow> ('r, 'c) frame \<Rightarrow> error + ('r, 'c) frame"
where
  "for_each_date body [] weight_df = Inr weight_df"
| "for_each_date body (dt # dts) weight_df =
     (case body dt of
        Inl e \<Rightarrow> Inl e
      | Inr None \<Rightarrow> for_each_date body dts weight_df
      | Inr (Some w) \<Rightarrow> for_each_date body dts (set_row dt w weight_df))"

text \<open>
  The covariance estimate of \<open>max_IR_weight\<close> and \<open>max_IC_weight\<close>. \<open>lw\<close> stands for
  \<open>LedoitWolf().fit(X).covariance_\<close> of scikit-learn, \<open>None\<close> when the fit raises; \<open>obs\<close>
  is the table of observations (one row each) over \<open>k\<close> variables.
\<close>

definition cov_mat ::
  "(matrix \<Rightarrow> matrix option) \<Rightarrow> string \<Rightarrow> nat \<Rightarrow> ('r \<times> npfloat list) list \<Rightarrow> matrix"
where
  "cov_mat lw covariance_type k obs =
     (if covariance_type = ''shrink'' then
        (case lw (as_matrix obs) of
           Some c \<Rightarrow> c
         | None \<Rightarrow> np_cov (cols_of k obs))
      else np_cov (cols_of k obs))"

text \<open>
  From the covariance matrix to the row of weights: the inverse times the vector \<open>v\<close>
  (reshaped to a column of \<open>len(inv)\<close> entries, which raises when the sizes differ),
  divided by its sum.
\<close>

definition solve_weight :: "matrix \<Rightarrow> npfloat list \<Rightarrow> error + npfloat list option" where
  "solve_weight cov v =
     (case np_linalg_inv cov of
        Inl e \<Rightarrow> Inl e
      | Inr inv_cov \<Rightarrow>
          if length inv_cov \<noteq> length v then Inl LengthMismatch
          else Inr (Some (div_by_sum (mat_vec inv_cov v))))"

definition max_IR_body ::
  "(matrix \<Rightarrow> matrix option) \<Rightarrow> (date, factor_name) frame \<Rightarrow> int \<Rightarrow> string \<Rightarrow> date
     \<Rightarrow> error + npfloat list option"
where
  "max_IR_body lw ic_df n covariance_type dt =
     (let k = length (columns ic_df);
          ic_dt = window ic_df dt n
      in if int (length ic_dt) < n then Inr None
         else solve_weight (cov_mat lw covariance_type k ic_dt) (map pd_mean (cols_of k ic_dt)))"

definition max_IR_loop ::
  "(matrix \<Rightarrow> matrix option) \<Rightarrow> (date, factor_name) frame \<Rightarrow> int \<Rightarrow> string
     \<Rightarrow> error + (date, factor_name) frame"
where
  "max_IR_loop lw ic_df rollback_period covariance_type =
     for_each_date (max_IR_body lw ic_df rollback_period covariance_type) (index ic_df)
       (nan_frame (index ic_df) (columns ic_df))"

definition max_IR_weight ::
  "(matrix \<Rightarrow> matrix option) \<Rightarrow> (date, factor_name) frame \<Rightarrow> int \<Rightarrow> int \<Rightarrow> string
     \<Rightarrow> error + (date, factor_name) frame"
where
  "max_IR_weight lw ic_df holding_period rollback_period covariance_type =
     (case max_IR_loop lw ic_df rollback_period covariance_type of
        Inl e \<Rightarrow> Inl e
      | Inr weight_df \<Rightarrow> Inr (shift holding_period weight_df))"

text \<open>\<open>df.loc[dt]\<close>: the row labelled \<open>dt\<close> as a series over the columns, or \<open>KeyError\<close>.\<close>

definition loc :: "('r, 'c) frame \<Rightarrow> 'r \<Rightarrow> error + ('c \<times> npfloat) list" where
  "loc f dt =
     (case map_of (rows f) dt of
        None \<Rightarrow> Inl KeyError
      | Some r \<Rightarrow> Inr (zip (columns f) r))"

text \<open>
  The labels of an outer join: the common index when all the indexes are equal, and
  otherwise their sorted union.
\<close>

definition union_index :: "('c::linorder) list list \<Rightarrow> 'c list" where
  "union_index idxs =
     (case idxs of
        [] \<Rightarrow> []
      | i0 # rest \<Rightarrow> if list_all (\<lambda>i. i = i0) rest then i0 else sort (remdups (concat idxs)))"

text \<open>
  \<open>pd.concat(series, axis=1)\<close>: one row per label of the outer join, one column per
  series, \<open>nan\<close> where a series has no such label.
\<close>

definition concat_outer :: "(('c::linorder) \<times> npfloat) list list \<Rightarrow> ('c \<times> npfloat list) list" where
  "concat_outer series =
     map (\<lambda>a. (a, map (\<lambda>s. case map_of s a of None \<Rightarrow> NaN | Some v \<Rightarrow> v) series))
       (union_index (map (map fst) series))"

text \<open>\<open>df.dropna()\<close>: the rows that hold no \<open>nan\<close>.\<close>

definition dropna :: "('r \<times> npfloat list) list \<Rightarrow> ('r \<times> npfloat list) list" where
  "dropna rs = filter (\<lambda>(a, r). \<not> list_ex isnan r) rs"

text \<open>\<open>[factors_dict[factor_name].loc[dt] for factor_name in names]\<close>\<close>

fun loc_each ::
  "(factor_name \<times> ('r, 'c) frame) list \<Rightarrow> factor_name list \<Rightarrow> 'r \<Rightarrow> error + ('c \<times> npfloat) list list"
where
  "loc_each factors_dict [] dt = Inr []"
| "loc_each factors_dict (factor_name # names) dt =
     (case map_of factors_dict factor_name of
        None \<Rightarrow> Inl KeyError
      | Some factor \<Rightarrow>
          (case loc factor dt of
             Inl e \<Rightarrow> Inl e
           | Inr s \<Rightarrow>
               (case loc_each factors_dict names dt of
                  Inl e \<Rightarrow> Inl e
                | Inr ss \<Rightarrow> Inr (s # ss))))"

definition max_IC_body ::
  "(matrix \<Rightarrow> matrix option) \<Rightarrow> (date, factor_name) frame
     \<Rightarrow> (factor_name \<times> (date, 'a::linorder) frame) list \<Rightarrow> string \<Rightarrow> date
     \<Rightarrow> error + npfloat list option"
where
  "max_IC_body lw ic_df factors_dict covariance_type dt =
     (case loc_each factors_dict (columns ic_df) dt of
        Inl e \<Rightarrow> Inl e
      | Inr series \<Rightarrow>
          if series = [] then Inl NoObjectsToConcatenate
          else
            let f_dt = dropna (concat_outer series)
            in if length f_dt = 0 then Inr None
               else
                 (case loc ic_df dt of
                    Inl e \<Rightarrow> Inl e
                  | Inr ic \<Rightarrow>
                      solve_weight (cov_mat lw covariance_type (length (columns ic_df)) f_dt)
                        (map snd ic)))"

definition max_IC_loop ::
  "(matrix \<Rightarrow> matrix option) \<Rightarrow> (date, factor_name) frame
     \<Rightarrow> (factor_name \<times> (date, 'a::linorder) frame) list \<Rightarrow> string
     \<Rightarrow> error + (date, factor_name) frame"
where
  "max_IC_loop lw ic_df factors_dict covariance_type =
     for_each_date (max_IC_body lw ic_df factors_dict covariance_type) (index ic_df)
       (nan_frame (index ic_df) (columns ic_df))"

definition max_IC_weight ::
  "(matrix \<Rightarrow> matrix option) \<Rightarrow> (date, factor_name) frame
     \<Rightarrow> (factor_name \<times> (date, 'a::linorder) frame) list \<Rightarrow> int \<Rightarrow> string
     \<Rightarrow> error + (date, factor_name) frame"
where
  "max_IC_weight lw ic_df factors_dict holding_period covariance_type =
     (case max_IC_loop lw ic_df factors_dict covariance_type of
        Inl e \<Rightarrow> Inl e
      | Inr weight_df \<Rightarrow> Inr (shift holding_period weight_df))"

definition ic_weight_body ::
  "(date, factor_name) frame \<Rightarrow> int \<Rightarrow> date \<Rightarrow> error + npfloat list option"
where
  "ic_weight_body ic_df n dt =
     (let ic_dt = window ic_df dt n
      in if int (length ic_dt) < n then Inr None
         else Inr (Some (div_by_sum (map pd_mean (cols_of (length (columns ic_df)) ic_dt)))))"

definition ic_weight_loop ::
  "(date, factor_name) frame \<Rightarrow> int \<Rightarrow> error + (date, factor_name) frame"
where
  "ic_weight_loop ic_df rollback_period =
     for_each_date (ic_weight_body ic_df rollback_period) (index ic_df)
       (nan_frame (index ic_df) (columns ic_df))"

definition ic_weight ::
  "(date, factor_name) frame \<Rightarrow> int \<Rightarrow> int \<Rightarrow> error + (date, factor_name) frame"
where
  "ic_weight ic_df holding_period rollback_period =
     (case ic_weight_loop ic_df rollback_period of
        Inl e \<Rightarrow> Inl e
      | Inr weight_df \<Rightarrow> Inr (shift holding_period weight_df))"

definition ir_weight_body ::
  "(date, factor_name) frame \<Rightarrow> int \<Rightarrow> date \<Rightarrow> error + npfloat list option"
where
  "ir_weight_body ic_df n dt =
     (let ic_dt = window ic_df dt n
      in if int (length ic_dt) < n then Inr None
         else Inr (Some (div_by_sum
                (map (\<lambda>c. fdiv (pd_mean c) (pd_std c)) (cols_of (length (columns ic_df)) ic_dt)))))"

definition ir_weight_loop ::
  "(date, factor_name) frame \<Rightarrow> int \<Rightarrow> error + (date, factor_name) frame"
where
  "ir_weight_loop ic_df rollback_period =
     for_each_date (ir_weight_body ic_df rollback_period) (index ic_df)
       (nan_frame (index ic_df) (columns ic_df))"

definition ir_weight ::
  "(date, factor_name) frame \<Rightarrow> int \<Rightarrow> int \<Rightarrow> error + (date, factor_name) frame"
where
  "ir_weight ic_df holding_period rollback_period =
     (case ir_weight_loop ic_df rollback_period of
        Inl e \<Rightarrow> Inl e
      | Inr weight_df \<Rightarrow> Inr (shift holding_period weight_df))"

text \<open>
  The shift as the specification words it: the labels are the same, the first \<open>h\<close> rows are
  undefined, and row \<open>i\<close> of the output is row \<open>i - h\<close> of the weights as computed.
\<close>

definition shifted_down_by :: "int \<Rightarrow> ('r, 'c) frame \<Rightarrow> ('r, 'c) frame \<Rightarrow> bool" where
  "shifted_down_by h P W =
     (columns W = columns P \<and> index W = index P \<and>
      list_all (\<lambda>i. snd (rows W ! i) =
                  (if int i < h then replicate (length (columns P)) NaN
                   else snd (rows P ! (i - nat h))))
        [0..<length (rows P)])"

section \<open>Collaborators\<close>

text \<open>
  The functions of other modules and libraries that this module calls, as parameters:
  \<open>jutil.fillinf\<close>; \<open>process.winsorize\<close>, \<open>process.standardize\<close>,
  \<open>process.rank_standardize\<close> and \<open>process._mask_non_index_member\<close>, each with its
  \<open>index_member\<close> argument (\<open>None\<close> when the call passes none); \<open>scipy.linalg.orth\<close>, on
  a matrix given by its columns and returning the columns of the basis;
  \<open>SignalCreator(...).get_signal_data\<close>, whose first argument stands for the arguments of
  the constructor (price, high, low, period, and the remaining settings); the column names
  of a signal table; \<open>pfm.calc_signal_ic\<close> on the signal column and the named return
  column of a signal table, a series by date; and \<open>_prepare_data(pools, start, end, dv,
  ds).get_ts(field)\<close> of the data source.
\<close>

type_synonym 'a panel = "(date, 'a) frame"

type_synonym ('a, 'x) sc_args = "'a panel \<times> 'a panel option \<times> 'a panel option \<times> int \<times> 'x"

record ('a, 'x, 'sd) collab =
  fillinf :: "'a panel \<Rightarrow> 'a panel"
  winsorize :: "'a panel \<Rightarrow> 'a panel option \<Rightarrow> 'a panel"
  standardize :: "'a panel \<Rightarrow> 'a panel option \<Rightarrow> 'a panel"
  rank_standardize :: "'a panel \<Rightarrow> 'a panel option \<Rightarrow> 'a panel"
  mask_non_index_member :: "'a panel \<Rightarrow> 'a panel option \<Rightarrow> 'a panel"
  orth :: "matrix \<Rightarrow> error + matrix"
  get_signal_data :: "('a, 'x) sc_args \<Rightarrow> 'a panel \<Rightarrow> 'sd"
  signal_columns :: "'sd \<Rightarrow> string list"
  calc_signal_ic :: "'sd \<Rightarrow> string \<Rightarrow> date \<Rightarrow> npfloat option"
  get_ts :: "'a list \<Rightarrow> date \<Rightarrow> date \<Rightarrow> string \<Rightarrow> 'a panel"

text \<open>
  A Python \<open>dict\<close> of factors, in insertion order. \<open>d[k] = v\<close> replaces the value of a key
  where it stands and appends a key that is new.
\<close>

type_synonym 'a factors = "(factor_name \<times> 'a panel) list"

fun dict_set :: "'k \<Rightarrow> 'v \<Rightarrow> ('k \<times> 'v) list \<Rightarrow> ('k \<times> 'v) list" where
  "dict_set k v [] = [(k, v)]"
| "dict_set k v ((k', v') # d) = (if k' = k then (k, v) # d else (k', v') # dict_set k v d)"

section \<open>orthogonalize\<close>

text \<open>The first loop: each factor is sanitized, and winsorized on request, in the caller's dict.\<close>

fun sanitize_loop ::
  "('a, 'x, 'sd) collab \<Rightarrow> bool \<Rightarrow> 'a panel option \<Rightarrow> factor_name list \<Rightarrow> 'a factors
     \<Rightarrow> error + 'a factors"
where
  "sanitize_loop c winsorization index_member [] factors_dict = Inr factors_dict"
| "sanitize_loop c winsorization index_member (factor_name # names) factors_dict =
     (case map_of factors_dict factor_name of
        None \<Rightarrow> Inl KeyError
      | Some p \<Rightarrow>
          let d1 = dict_set factor_name (fillinf c p) factors_dict
          in if winsorization
             then sanitize_loop c winsorization index_member names
                    (dict_set factor_name (winsorize c (fillinf c p) index_member) d1)
             else sanitize_loop c winsorization index_member names d1)"

text \<open>The two local functions of \<open>orthogonalize\<close>.\<close>

definition Schmidt :: "('a, 'x, 'sd) collab \<Rightarrow> matrix \<Rightarrow> error + matrix" where
  "Schmidt c data = orth c data"

definition get_vector :: "'r \<Rightarrow> ('r, 'c) frame \<Rightarrow> error + ('c \<times> npfloat) list" where
  "get_vector date factor = loc factor date"

text \<open>\<open>list(map(partial(get_vector, date), factor_value_list))\<close>\<close>

fun get_vectors :: "('r, 'c) frame list \<Rightarrow> 'r \<Rightarrow> error + ('c \<times> npfloat) list list" where
  "get_vectors [] date = Inr []"
| "get_vectors (factor # factors) date =
     (case get_vector date factor of
        Inl e \<Rightarrow> Inl e
      | Inr s \<Rightarrow>
          (case get_vectors factors date of
             Inl e \<Rightarrow> Inl e
           | Inr ss \<Rightarrow> Inr (s # ss)))"

text \<open>
  \<open>pd.concat(series, axis=1, join="inner")\<close>: one row per label that every series has, one
  column per series. The labels are listed in the order of the first series.
\<close>

definition concat_inner :: "('c \<times> npfloat) list list \<Rightarrow> ('c \<times> npfloat list) list" where
  "concat_inner series =
     (case series of
        [] \<Rightarrow> []
      | s0 # rest \<Rightarrow>
          map (\<lambda>a. (a, map (\<lambda>s. case map_of s a of None \<Rightarrow> NaN | Some v \<Rightarrow> v) series))
            (filter (\<lambda>a. list_all (\<lambda>s. map_of s a \<noteq> None) rest) (map fst s0)))"

text \<open>
  The body of the loop over the dates of the first factor. \<open>Inr None\<close> is \<open>continue\<close>;
  otherwise the assets that are left and, for each factor, its orthogonalized column.
  \<open>pd.DataFrame(Schmidt(data), index=data.index)\<close> raises when the basis has not one row
  per asset, and \<open>data.columns = factor_name_list\<close> when it has not one column per factor.
\<close>

definition orth_date ::
  "('a, 'x, 'sd) collab \<Rightarrow> 'a panel list \<Rightarrow> date \<Rightarrow> error + ('a list \<times> matrix) option"
where
  "orth_date c factor_value_list date =
     (case get_vectors factor_value_list date of
        Inl e \<Rightarrow> Inl e
      | Inr vectors \<Rightarrow>
          let data = concat_inner vectors
          in if length data = 0 then Inr None
             else
               let data' = dropna data
               in (case Schmidt c (cols_of (length factor_value_list) data') of
                     Inl e \<Rightarrow> Inl e
                   | Inr q \<Rightarrow>
                       if list_ex (\<lambda>col. length col \<noteq> length data') q then Inl LengthMismatch
                       else if length q \<noteq> length factor_value_list then Inl LengthMismatch
                       else Inr (Some (map fst data', q))))"

text \<open>
  The loop over the dates: the rows appended to \<open>new_factors_dict\<close>, kept here as one entry
  per date that was not skipped (the date, its assets, and the columns of all factors).
\<close>

fun orth_loop ::
  "('a, 'x, 'sd) collab \<Rightarrow> 'a panel list \<Rightarrow> date list \<Rightarrow> error + (date \<times> 'a list \<times> matrix) list"
where
  "orth_loop c factor_value_list [] = Inr []"
| "orth_loop c factor_value_list (date # dates) =
     (case orth_date c factor_value_list date of
        Inl e \<Rightarrow> Inl e
      | Inr None \<Rightarrow> orth_loop c factor_value_list dates
      | Inr (Some (assets, q)) \<Rightarrow>
          (case orth_loop c factor_value_list dates of
             Inl e \<Rightarrow> Inl e
           | Inr new \<Rightarrow> Inr ((date, assets, q) # new)))"

text \<open>
  \<open>pd.concat(new_factors_dict[factor_name])\<close> for the factor in position \<open>j\<close>: the one-row
  frames of the dates stacked, over the outer join of their columns. It raises on an empty
  list.
\<close>

definition concat_rows ::
  "nat \<Rightarrow> (date \<times> ('a::linorder) list \<times> matrix) list \<Rightarrow> error + 'a panel"
where
  "concat_rows j new =
     (if new = [] then Inl NoObjectsToConcatenate
      else
        let cols = union_index (map (\<lambda>(date, assets, q). assets) new)
        in Inr \<lparr>columns = cols,
                rows = map (\<lambda>(date, assets, q).
                         (date, map (\<lambda>a. case map_of (zip assets (q ! j)) a of
                                            None \<Rightarrow> NaN | Some v \<Rightarrow> v) cols)) new\<rparr>)"

text \<open>The last loop: each factor's frame is assembled and standardized.\<close>

fun restandardize_loop ::
  "('a::linorder, 'x, 'sd) collab \<Rightarrow> string \<Rightarrow> 'a panel option
     \<Rightarrow> (date \<times> 'a list \<times> matrix) list \<Rightarrow> nat \<Rightarrow> factor_name list \<Rightarrow> error + 'a factors"
where
  "restandardize_loop c standardize_type index_member new j [] = Inr []"
| "restandardize_loop c standardize_type index_member new j (factor_name # names) =
     (case concat_rows j new of
        Inl e \<Rightarrow> Inl e
      | Inr factor_value \<Rightarrow>
          (case restandardize_loop c standardize_type index_member new (Suc j) names of
             Inl e \<Rightarrow> Inl e
           | Inr d \<Rightarrow>
               Inr ((factor_name,
                     if standardize_type = ''z_score''
                     then standardize c factor_value index_member
                     else rank_standardize c factor_value index_member) # d)))"

text \<open>
  \<open>orthogonalize\<close> returns the new dict or raises; the second component is the caller's
  dict as the call leaves it.
\<close>

definition orthogonalize ::
  "('a::linorder, 'x, 'sd) collab \<Rightarrow> 'a factors \<Rightarrow> string \<Rightarrow> bool \<Rightarrow> 'a panel option
     \<Rightarrow> (error + 'a factors) \<times> 'a factors"
where
  "orthogonalize c factors_dict standardize_type winsorization index_member =
     (if length factors_dict < 2 then (Inl TooFewFactors, factors_dict)
      else
        (case sanitize_loop c winsorization index_member (map fst factors_dict) factors_dict of
           Inl e \<Rightarrow> (Inl e, factors_dict)
         | Inr d \<Rightarrow>
             let factor_name_list = map fst d;
                 factor_value_list = map snd d
             in (case orth_loop c factor_value_list (index (hd factor_value_list)) of
                   Inl e \<Rightarrow> (Inl e, d)
                 | Inr new \<Rightarrow>
                     (restandardize_loop c standardize_type index_member new 0 factor_name_list,
                      d))))"

section \<open>get_factors_ic_df\<close>

text \<open>
  The loop over the factors: the factor is sanitized in the caller's dict, its signal table
  is asked for, and its IC series is appended to \<open>ic_table\<close>, or the call raises when the
  table lacks the return column.
\<close>

fun ic_loop ::
  "('a, 'x, 'sd) collab \<Rightarrow> ('a, 'x) sc_args \<Rightarrow> string \<Rightarrow> factor_name list \<Rightarrow> 'a factors
     \<Rightarrow> (factor_name \<times> (date \<Rightarrow> npfloat option)) list
     \<Rightarrow> (error + (factor_name \<times> (date \<Rightarrow> npfloat option)) list) \<times> 'a factors"
where
  "ic_loop c sc ret_type [] factors_dict ic_table = (Inr ic_table, factors_dict)"
| "ic_loop c sc ret_type (factor_name # names) factors_dict ic_table =
     (case map_of factors_dict factor_name of
        None \<Rightarrow> (Inl KeyError, factors_dict)
      | Some p \<Rightarrow>
          let d1 = dict_set factor_name (fillinf c p) factors_dict;
              factor_value = fillinf c p;
              signal_data = get_signal_data c sc factor_value
          in if ret_type \<in> set (signal_columns c signal_data)
             then ic_loop c sc ret_type names d1
                    (ic_table @ [(factor_name, calc_signal_ic c signal_data ret_type)])
             else (Inl MissingReturnColumn, d1))"

text \<open>
  \<open>pd.concat(ic_table, axis=1)\<close>: the outer join of the series by date; \<open>.dropna()\<close>: without
  the dates on which a factor has no IC or a \<open>nan\<close>; \<open>.reindex(times)\<close>: one row per date of
  \<open>times\<close>, all \<open>nan\<close> where the table has none.
\<close>

definition ic_concat ::
  "(factor_name \<times> (date \<Rightarrow> npfloat option)) list \<Rightarrow> date \<Rightarrow> npfloat list option"
where
  "ic_concat ic_table t =
     (if list_ex (\<lambda>(name, ic). ic t \<noteq> None) ic_table
      then Some (map (\<lambda>(name, ic). case ic t of None \<Rightarrow> NaN | Some v \<Rightarrow> v) ic_table)
      else None)"

definition dropna_rows :: "('r \<Rightarrow> npfloat list option) \<Rightarrow> 'r \<Rightarrow> npfloat list option" where
  "dropna_rows m t =
     (case m t of
        None \<Rightarrow> None
      | Some r \<Rightarrow> if list_ex isnan r then None else Some r)"

definition reindex :: "'c list \<Rightarrow> ('r \<Rightarrow> npfloat list option) \<Rightarrow> 'r list \<Rightarrow> ('r, 'c) frame" where
  "reindex cols m labels =
     \<lparr>columns = cols,
      rows = map (\<lambda>t. (t, case m t of None \<Rightarrow> replicate (length cols) NaN | Some r \<Rightarrow> r)) labels\<rparr>"

text \<open>\<open>sorted(pd.concat([pd.Series(f.index) for f in factors]).unique())\<close>\<close>

definition times_of :: "'a factors \<Rightarrow> date list" where
  "times_of factors_dict = sort (remdups (concat (map (\<lambda>(name, p). index p) factors_dict)))"

definition get_factors_ic_df ::
  "('a, 'x, 'sd) collab \<Rightarrow> 'a factors \<Rightarrow> ('a, 'x) sc_args \<Rightarrow> string option
     \<Rightarrow> (error + (date, factor_name) frame) \<times> 'a factors"
where
  "get_factors_ic_df c factors_dict sc ret_type =
     (let ret_type = (case ret_type of None \<Rightarrow> ''return'' | Some r \<Rightarrow> r)
      in if ret_type \<notin> set [''return'', ''upside_ret'', ''downside_ret'']
         then (Inl UnsupportedRetType, factors_dict)
         else if factors_dict = [] then (Inl NoObjectsToConcatenate, factors_dict)
         else
           let times_index = times_of factors_dict
           in (case ic_loop c sc ret_type (map fst factors_dict) factors_dict [] of
                 (Inl e, d) \<Rightarrow> (Inl e, d)
               | (Inr ic_table, d) \<Rightarrow>
                   (Inr (reindex (map fst ic_table) (dropna_rows (ic_concat ic_table)) times_index), d)))"

section \<open>combine_factors\<close>

text \<open>
  \<open>standarize_factors\<close> on a dict: each factor in turn is sanitized, masked, winsorized on
  request and standardized, every step stored in the dict; an unknown \<open>standardize_type\<close>
  raises after the first factor's earlier steps are stored. The second component is the
  dict as the loop leaves it.
\<close>

fun standarize_loop ::
  "('a, 'x, 'sd) collab \<Rightarrow> string option \<Rightarrow> bool \<Rightarrow> 'a panel option \<Rightarrow> factor_name list
     \<Rightarrow> 'a factors \<Rightarrow> (error + unit) \<times> 'a factors"
where
  "standarize_loop c standardize_type winsorization index_member [] factors_dict =
     (Inr (), factors_dict)"
| "standarize_loop c standardize_type winsorization index_member (factor_name # names) factors_dict =
     (case map_of factors_dict factor_name of
        None \<Rightarrow> (Inl KeyError, factors_dict)
      | Some p \<Rightarrow>
          let p1 = fillinf c p;
              p2 = mask_non_index_member c p1 index_member;
              p3 = (if winsorization then winsorize c p2 None else p2);
              d3 = dict_set factor_name p3 factors_dict
          in if standardize_type = Some ''z_score''
             then standarize_loop c standardize_type winsorization index_member names
                    (dict_set factor_name (standardize c p3 None) d3)
             else if standardize_type = Some ''rank''
             then standarize_loop c standardize_type winsorization index_member names
                    (dict_set factor_name (rank_standardize c p3 None) d3)
             else if standardize_type \<noteq> None then (Inl BadStandardizeType, d3)
             else standarize_loop c standardize_type winsorization index_member names d3)"

definition standarize_factors ::
  "('a, 'x, 'sd) collab \<Rightarrow> string option \<Rightarrow> bool \<Rightarrow> 'a panel option \<Rightarrow> 'a factors
     \<Rightarrow> (error + unit) \<times> 'a factors"
where
  "standarize_factors c standardize_type winsorization index_member factors_dict =
     standarize_loop c standardize_type winsorization index_member (map fst factors_dict)
       factors_dict"

text \<open>
  What the specification calls standardizing one panel: sanitize, mask by index membership,
  winsorize on request, then z-score or rank standardization, or none.
\<close>

definition spec_standardize ::
  "('a, 'x, 'sd) collab \<Rightarrow> string option \<Rightarrow> bool \<Rightarrow> 'a panel option \<Rightarrow> 'a panel \<Rightarrow> 'a panel"
where
  "spec_standardize c standardize_type winsorization index_member p =
     (let p2 = mask_non_index_member c (fillinf c p) index_member;
          p3 = (if winsorization then winsorize c p2 None else p2)
      in if standardize_type = Some ''z_score'' then standardize c p3 None
         else if standardize_type = Some ''rank'' then rank_standardize c p3 None
         else p3)"

text \<open>The cell of a frame at a row label and a column label, \<open>nan\<close> when either is missing.\<close>

definition cell :: "('r, 'c) frame \<Rightarrow> 'r \<Rightarrow> 'c \<Rightarrow> npfloat" where
  "cell f d a =
     (case map_of (rows f) d of
        None \<Rightarrow> NaN
      | Some r \<Rightarrow> (case map_of (zip (columns f) r) a of None \<Rightarrow> NaN | Some v \<Rightarrow> v))"

text \<open>
  The labels on which a binary operation aligns two frames (\<open>Index.join(how="outer")\<close>):
  the labels of the one when the two are equal or the other has none, and otherwise their
  sorted union.
\<close>

definition outer_join :: "('c::linorder) list \<Rightarrow> 'c list \<Rightarrow> 'c list" where
  "outer_join a b =
     (if a = b \<or> b = [] then a
      else if a = [] then b
      else sort (remdups (a @ b)))"

text \<open>
  \<open>x + y\<close> on two frames (\<open>sum_weighted_factors\<close>): the frames are aligned on the outer
  join of their labels and added cell by cell.
\<close>

definition sum_weighted_factors ::
  "('r::linorder, 'c::linorder) frame \<Rightarrow> ('r, 'c) frame \<Rightarrow> ('r, 'c) frame"
where
  "sum_weighted_factors x y =
     (let idx = outer_join (index x) (index y);
          cols = outer_join (columns x) (columns y)
      in \<lparr>columns = cols,
          rows = map (\<lambda>d. (d, map (\<lambda>a. fadd (cell x d a) (cell y d a)) cols)) idx\<rparr>)"

text \<open>
  The merged configuration \<open>_props\<close> (the caller's \<open>props\<close> over the defaults): the fields
  this module reads, and the rest, which only the signal engine reads.
\<close>

record ('a, 'x) props =
  price :: "'a panel option"
  high :: "'a panel option"
  low :: "'a panel option"
  ret_type :: "string option"
  period :: int
  covariance_type :: string
  rollback_period :: int
  settings :: 'x

definition cal_weight ::
  "('a::linorder, 'x, 'sd) collab \<Rightarrow> (matrix \<Rightarrow> matrix option) \<Rightarrow> 'a factors \<Rightarrow> string
     \<Rightarrow> ('a, 'x) props \<Rightarrow> (error + (date, factor_name) frame) \<times> 'a factors"
where
  "cal_weight c lw factors_dict weighted_method props =
     (let sided = (ret_type props \<in> {Some ''upside_ret'', Some ''downside_ret''});
          need_dv = (price props = None \<or> (sided \<and> (high props = None \<or> low props = None)));
          factor_0 = snd (hd factors_dict)
      in if need_dv \<and> index factor_0 = [] then (Inl IndexError, factors_dict)
         else
           let dv = get_ts c (columns factor_0) (hd (index factor_0)) (last (index factor_0));
               price' = (case price props of None \<Rightarrow> dv ''close_adj'' | Some p \<Rightarrow> p);
               high' = (if sided \<and> high props = None then Some (dv ''high_adj'') else high props);
               low' = (if sided \<and> low props = None then Some (dv ''low_adj'') else low props)
           in (case get_factors_ic_df c factors_dict
                      (price', high', low', period props, settings props) (ret_type props) of
                 (Inl e, d) \<Rightarrow> (Inl e, d)
               | (Inr ic_df, d) \<Rightarrow>
                   (if weighted_method = ''max_IR''
                    then max_IR_weight lw ic_df (period props) (rollback_period props)
                           (covariance_type props)
                    else if weighted_method = ''ic_weight''
                    then ic_weight ic_df (period props) (rollback_period props)
                    else if weighted_method = ''ir_weight''
                    then ir_weight ic_df (period props) (rollback_period props)
                    else if weighted_method = ''max_IC''
                    then max_IC_weight lw ic_df d (period props) (covariance_type props)
                    else Inl TypeError,
                    d)))"

text \<open>
  \<open>factors_dict[factor_name] * w\<close>, where \<open>w\<close> repeats the factor's weight column, reindexed
  to the factor's dates, once per asset column.
\<close>

definition weighted_factor ::
  "(date, factor_name) frame \<Rightarrow> factor_name \<Rightarrow> 'a panel \<Rightarrow> error + 'a panel"
where
  "weighted_factor weight factor_name p =
     (if factor_name \<notin> set (columns weight) then Inl KeyError
      else if columns p = [] then Inl NoObjectsToConcatenate
      else Inr (p\<lparr>rows := map (\<lambda>(d, r). (d, map (\<lambda>x. fmul x (cell weight d factor_name)) r))
                            (rows p)\<rparr>))"

fun weighted_factors ::
  "(date, factor_name) frame \<Rightarrow> 'a factors \<Rightarrow> error + 'a factors"
where
  "weighted_factors weight [] = Inr []"
| "weighted_factors weight ((factor_name, p) # d) =
     (case weighted_factor weight factor_name p of
        Inl e \<Rightarrow> Inl e
      | Inr wp \<Rightarrow>
          (case weighted_factors weight d of
             Inl e \<Rightarrow> Inl e
           | Inr wd \<Rightarrow> Inr ((factor_name, wp) # wd)))"

text \<open>
  \<open>combine_factors\<close> returns the composite factor or raises; the second component is the
  caller's dict as the call leaves it.
\<close>

definition combine_factors ::
  "('a::linorder, 'x, 'sd) collab \<Rightarrow> (matrix \<Rightarrow> matrix option) \<Rightarrow> 'a factors \<Rightarrow> string option
     \<Rightarrow> bool \<Rightarrow> 'a panel option \<Rightarrow> string \<Rightarrow> ('a, 'x) props
     \<Rightarrow> (error + 'a panel) \<times> 'a factors"
where
  "combine_factors c lw factors_dict standardize_type winsorization index_member
     weighted_method props =
     (if length factors_dict < 2 then (Inl TooFewFactors, factors_dict)
      else
        (case standarize_factors c standardize_type winsorization index_member factors_dict of
           (Inl e, d) \<Rightarrow> (Inl e, d)
         | (Inr u, d) \<Rightarrow>
             let (weighted, d') =
                   (if weighted_method \<in> set [''max_IR'', ''max_IC'', ''ic_weight'', ''ir_weight'']
                    then (case cal_weight c lw d weighted_method props of
                            (Inl e, d') \<Rightarrow> (Inl e, d')
                          | (Inr weight, d') \<Rightarrow> (weighted_factors weight d', d'))
                    else if weighted_method = ''equal_weight'' then (Inr d, d)
                    else (Inl BadWeightedMethod, d))
             in (case weighted of
                   Inl e \<Rightarrow> (Inl e, d')
                 | Inr wfs \<Rightarrow>
                     let new_factor = foldl sum_weighted_factors (snd (hd wfs)) (map snd (tl wfs))
                     in (case standarize_factors c standardize_type winsorization index_member
                                [(''factor'', new_factor)] of
                           (Inl e, s) \<Rightarrow> (Inl e, d')
                         | (Inr u, s) \<Rightarrow>
                             (case map_of s ''factor'' of
                                None \<Rightarrow> (Inl KeyError, d')
                              | Some new_factor \<Rightarrow> (Inr new_factor, d'))))))"

text \<open>The defaults of \<open>generate_props\<close>, over the settings that only the signal engine reads.\<close>

definition generate_props :: "'x \<Rightarrow> ('a, 'x) props" where
  "generate_props x =
     \<lparr>price = None, high = None, low = None, ret_type = Some ''return'', period = 5,
      covariance_type = ''simple'', rollback_period = 120, settings = x\<rparr>"

section \<open>Collaborators for the examples\<close>

text \<open>
  Modelled from the spec: \<open>jutil.fillinf\<close> is not among the sources. The specification
  says that it replaces the non-finite values of a panel with a neutral fill; here the
  infinities become \<open>nan\<close>.
\<close>

definition fillinf_nan :: "('r, 'c) frame \<Rightarrow> ('r, 'c) frame" where
  "fillinf_nan p =
     p\<lparr>rows := map (\<lambda>(d, r). (d, map (\<lambda>x. if isfinite x then x else NaN) r)) (rows p)\<rparr>"

text \<open>
  Modelled from the spec: the preprocessing module and the signal engine are not among the
  sources. The collaborators of the examples: \<open>fillinf\<close> as above; masking leaves a panel
  as it is when no index membership is given; the signal table of a factor is the factor
  itself, it has the columns \<open>signal\<close> and \<open>return\<close>, and the IC of a factor is one half on
  each of its dates. The examples call no other collaborator.
\<close>

definition example_collab :: "(string, unit, string panel) collab" where
  "example_collab =
     \<lparr>fillinf = fillinf_nan,
      winsorize = undefined,
      standardize = undefined,
      rank_standardize = undefined,
      mask_non_index_member = (\<lambda>p index_member. case index_member of None \<Rightarrow> p | Some m \<Rightarrow> undefined),
      orth = undefined,
      get_signal_data = (\<lambda>sc p. p),
      signal_columns = (\<lambda>signal_data. [''signal'', ''return'']),
      calc_signal_ic =
        (\<lambda>signal_data column d. if d \<in> set (index signal_data) then Some (Num (1 / 2)) else None),
      get_ts = undefined\<rparr>"


section \<open>Properties of the numeric model\<close>

lemma fadd_Num_iff: "fadd x y = Num c \<longleftrightarrow> (\<exists>a b. x = Num a \<and> y = Num b \<and> c = a + b)"
  by (cases x; cases y) auto

lemma fadd_commute: "fadd x y = fadd y x"
  by (cases x; cases y) simp_all











section \<open>Properties of frames, loops and dicts\<close>






lemma for_each_date_total:
  "(\<And>dt. \<exists>x. body dt = Inr x) \<Longrightarrow> \<exists>W'. for_each_date body dts W = Inr W'"
proof (induction dts arbitrary: W)
  case Nil
  show ?case by simp
next
  case (Cons dt dts)
  from Cons.prems obtain x where "body dt = Inr x" by blast
  with Cons.IH [OF Cons.prems] show ?case by (cases x) auto
qed




lemma shift_shifted_down:
  assumes "0 \<le> h"
  shows "shifted_down_by h P (shift h P)"
proof -
  let ?vals = "map snd (rows P)"
  let ?len = "length (rows P)"
  let ?fill = "replicate (length (columns P)) NaN"
  let ?vals' = "replicate (min (nat h) ?len) ?fill @ take (?len - nat h) ?vals"
  have len: "length ?vals' = ?len" by auto
  have r: "rows (shift h P) = zip (map fst (rows P)) ?vals'"
    using assms by (simp add: shift_def Let_def)
  have idx: "index (shift h P) = index P"
    unfolding index_def r using len by (simp add: map_fst_zip del: length_append)
  have nth: "snd (rows (shift h P) ! i) =
             (if int i < h then ?fill else snd (rows P ! (i - nat h)))" if i: "i < ?len" for i
  proof -
    have "snd (rows (shift h P) ! i) = ?vals' ! i"
      unfolding r using i len by (simp del: length_append)
    also have "\<dots> = (if int i < h then ?fill else snd (rows P ! (i - nat h)))"
      using i assms by (auto simp: nth_append min_def)
    finally show ?thesis .
  qed
  show ?thesis
    unfolding shifted_down_by_def list_all_iff using idx nth
    by (auto simp: shift_def Let_def)
qed





lemma map_of_dict_set:
  "map_of (dict_set k v d) k' = (if k' = k then Some v else map_of d k')"
  by (induction d) auto

lemma dict_set_keys: "map_of d k \<noteq> None \<Longrightarrow> map fst (dict_set k v d) = map fst d"
  by (induction d) auto

lemma dict_set_map:
  "distinct (map fst d) \<Longrightarrow> map_of d k = Some p \<Longrightarrow>
   dict_set k v d = map (\<lambda>(n, q). if n = k then (n, v) else (n, q)) d"
proof (induction d)
  case Nil
  then show ?case by simp
next
  case (Cons x d)
  show ?case
  proof (cases "fst x = k")
    case True
    with Cons.prems have "k \<notin> fst ` set d" by auto
    then have "map (\<lambda>(n, q). if n = k then (n, v) else (n, q)) d = d"
      by (induction d) auto
    with True show ?thesis by (cases x) simp
  next
    case False
    with Cons show ?thesis by (cases x) auto
  qed
qed

lemma dict_set_twice: "dict_set k v (dict_set k w d) = dict_set k v d"
  by (induction d) auto

lemmas weight_eval =
  ic_weight_def ic_weight_loop_def ic_weight_body_def index_def nan_frame_def window_def
  tail_def cols_of_def div_by_sum_def pd_mean_def np_sum_def set_row_def shift_def



lemmas ic_eval = get_factors_ic_df_def times_of_def index_def example_collab_def fillinf_nan_def
  reindex_def dropna_rows_def ic_concat_def

lemmas combine_eval =
  spec_standardize_def example_collab_def fillinf_nan_def sum_weighted_factors_def
  outer_join_def index_def cell_def

section \<open>The rows of the weight matrix sum to one\<close>











section \<open>The shift by the holding period\<close>

lemma weight_of_loop:
  "(case loop of Inl e \<Rightarrow> Inl e | Inr weight_df \<Rightarrow> Inr (shift h weight_df)) = res \<Longrightarrow>
   0 \<le> h \<Longrightarrow> loop = Inr P \<Longrightarrow> \<exists>W. res = Inr W \<and> shifted_down_by h P W"
  by (auto intro: shift_shifted_down)

text \<open>
  C2. For every holding period \<open>h \<ge> 0\<close> each weight scheme returns the weights its loop
  computed, shifted down by \<open>h\<close> rows: the labels stay, the first \<open>h\<close> rows are \<open>nan\<close>, and
  row \<open>i\<close> is row \<open>i - h\<close> of the loop's frame. \<open>ic_weight\<close> and \<open>ir_weight\<close> always return;
  \<open>max_IR_weight\<close> and \<open>max_IC_weight\<close> return whenever their loop does.
\<close>

theorem weights_shifted_by_holding_period:
  assumes "0 \<le> h"
  shows "(\<exists>P W. ic_weight_loop ic_df n = Inr P \<and> ic_weight ic_df h n = Inr W \<and> shifted_down_by h P W)
       \<and> (\<exists>P W. ir_weight_loop ic_df n = Inr P \<and> ir_weight ic_df h n = Inr W \<and> shifted_down_by h P W)
       \<and> (\<forall>P. max_IR_loop lw ic_df n ct = Inr P \<longrightarrow>
             (\<exists>W. max_IR_weight lw ic_df h n ct = Inr W \<and> shifted_down_by h P W))
       \<and> (\<forall>P. max_IC_loop lw ic_df factors_dict ct = Inr P \<longrightarrow>
             (\<exists>W. max_IC_weight lw ic_df factors_dict h ct = Inr W \<and> shifted_down_by h P W))"
proof (intro conjI allI impI)
  have "\<exists>P. ic_weight_loop ic_df n = Inr P"
    unfolding ic_weight_loop_def
    by (rule for_each_date_total) (simp add: ic_weight_body_def Let_def)
  then obtain P where P: "ic_weight_loop ic_df n = Inr P" ..
  with weight_of_loop [OF ic_weight_def [symmetric] assms P]
  show "\<exists>P W. ic_weight_loop ic_df n = Inr P \<and> ic_weight ic_df h n = Inr W \<and> shifted_down_by h P W"
    by blast
next
  have "\<exists>P. ir_weight_loop ic_df n = Inr P"
    unfolding ir_weight_loop_def
    by (rule for_each_date_total) (simp add: ir_weight_body_def Let_def)
  then obtain P where P: "ir_weight_loop ic_df n = Inr P" ..
  with weight_of_loop [OF ir_weight_def [symmetric] assms P]
  show "\<exists>P W. ir_weight_loop ic_df n = Inr P \<and> ir_weight ic_df h n = Inr W \<and> shifted_down_by h P W"
    by blast
next
  fix P assume "max_IR_loop lw ic_df n ct = Inr P"
  from weight_of_loop [OF max_IR_weight_def [symmetric] assms this]
  show "\<exists>W. max_IR_weight lw ic_df h n ct = Inr W \<and> shifted_down_by h P W" .
next
  fix P assume "max_IC_loop lw ic_df factors_dict ct = Inr P"
  from weight_of_loop [OF max_IC_weight_def [symmetric] assms this]
  show "\<exists>W. max_IC_weight lw ic_df factors_dict h ct = Inr W \<and> shifted_down_by h P W" .
qed

theorem weights_shifted_by_holding_period_witness:
  "ic_weight_loop \<lparr>columns = [''A'', ''B''], rows = [(1, [Num (1 / 8), Num (3 / 8)]), (2, [Num (1 / 4), Num (1 / 4)])]\<rparr> 1
     = Inr \<lparr>columns = [''A'', ''B''],
            rows = [(1, [Num (1 / 4), Num (3 / 4)]), (2, [Num (1 / 2), Num (1 / 2)])]\<rparr>
   \<and> ic_weight \<lparr>columns = [''A'', ''B''], rows = [(1, [Num (1 / 8), Num (3 / 8)]), (2, [Num (1 / 4), Num (1 / 4)])]\<rparr> 1 1
     = Inr \<lparr>columns = [''A'', ''B''],
            rows = [(1, [NaN, NaN]), (2, [Num (1 / 4), Num (3 / 4)])]\<rparr>
   \<and> shifted_down_by 1
        \<lparr>columns = [''A'', ''B''],
         rows = [(1 :: date, [Num (1 / 4), Num (3 / 4)]), (2, [Num (1 / 2), Num (1 / 2)])]\<rparr>
        \<lparr>columns = [''A'', ''B''], rows = [(1, [NaN, NaN]), (2, [Num (1 / 4), Num (3 / 4)])]\<rparr>"
proof -
  let ?ic = "\<lparr>columns = [''A'', ''B''], rows = [(1::int, [Num (1 / 8), Num (3 / 8)]), (2, [Num (1 / 4), Num (1 / 4)])]\<rparr>"
  have l: "ic_weight_loop ?ic 1
     = Inr \<lparr>columns = [''A'', ''B''],
            rows = [(1, [Num (1 / 4), Num (3 / 4)]), (2, [Num (1 / 2), Num (1 / 2)])]\<rparr>"
    by (simp add: weight_eval)
  have w: "ic_weight ?ic 1 1
     = Inr \<lparr>columns = [''A'', ''B''], rows = [(1, [NaN, NaN]), (2, [Num (1 / 4), Num (3 / 4)])]\<rparr>"
    by (simp add: weight_eval)
  have "(0::int) \<le> 1" by simp
  from weights_shifted_by_holding_period [OF this, of ?ic 1] l w
  show ?thesis by auto
qed

section \<open>A singular covariance matrix\<close>





section \<open>The rolling window\<close>










section \<open>Equal weights\<close>

lemma outer_join_commute: "outer_join a b = outer_join b a"
proof -
  have "sort (remdups (a @ b)) = sort (remdups (b @ a))"
    by (rule sorted_distinct_set_unique) auto
  then show ?thesis by (auto simp: outer_join_def)
qed

lemma sum_weighted_factors_commute: "sum_weighted_factors x y = sum_weighted_factors y x"
  unfolding sum_weighted_factors_def
  by (simp add: outer_join_commute [of "index x"] outer_join_commute [of "columns x"]
      fadd_commute [of "cell x _ _"])

lemma standarize_step:
  assumes "map_of d name = Some p" and "st \<in> {None, Some ''z_score'', Some ''rank''}"
  shows "standarize_loop c st wz im (name # names) d =
         standarize_loop c st wz im names (dict_set name (spec_standardize c st wz im p) d)"
  using assms by (auto simp: Let_def spec_standardize_def dict_set_twice)

lemma standarize_loop_valid:
  assumes "st \<in> {None, Some ''z_score'', Some ''rank''}"
  shows "distinct names \<Longrightarrow> distinct (map fst d) \<Longrightarrow> set names \<subseteq> fst ` set d \<Longrightarrow>
     standarize_loop c st wz im names d =
       (Inr (), map (\<lambda>(n, p). (n, if n \<in> set names then spec_standardize c st wz im p else p)) d)"
proof (induction names arbitrary: d)
  case Nil
  then show ?case by (simp add: case_prod_unfold)
next
  case (Cons name names)
  from Cons.prems obtain p where p: "map_of d name = Some p"
    by (cases "map_of d name") (auto simp: map_of_eq_None_iff)
  let ?d1 = "dict_set name (spec_standardize c st wz im p) d"
  have keys: "map fst ?d1 = map fst d" using p by (simp add: dict_set_keys)
  have d1: "?d1 = map (\<lambda>(n, q). if n = name then (n, spec_standardize c st wz im p) else (n, q)) d"
    using Cons.prems(2) p by (rule dict_set_map)
  have "standarize_loop c st wz im (name # names) d = standarize_loop c st wz im names ?d1"
    using p assms by (rule standarize_step)
  also have "\<dots> = (Inr (), map (\<lambda>(n, p). (n, if n \<in> set names then spec_standardize c st wz im p else p)) ?d1)"
  proof (rule Cons.IH)
    show "distinct names" using Cons.prems(1) by simp
    show "distinct (map fst ?d1)" using Cons.prems(2) keys by simp
    have "fst ` set ?d1 = fst ` set d" using keys by (metis list.set_map)
    with Cons.prems(3) show "set names \<subseteq> fst ` set ?d1" by simp
  qed
  also have "map (\<lambda>(n, p). (n, if n \<in> set names then spec_standardize c st wz im p else p)) ?d1
      = map (\<lambda>(n, p). (n, if n \<in> set (name # names) then spec_standardize c st wz im p else p)) d"
  proof -
    have "q = p" if "(name, q) \<in> set d" for q
      using that Cons.prems(2) p by simp
    with Cons.prems(1) show ?thesis unfolding d1 by (auto simp: case_prod_unfold)
  qed
  finally show ?case .
qed

lemma standarize_factors_valid:
  assumes "st \<in> {None, Some ''z_score'', Some ''rank''}" and "distinct (map fst d)"
  shows "standarize_factors c st wz im d =
         (Inr (), map (\<lambda>(n, p). (n, spec_standardize c st wz im p)) d)"
proof -
  have "standarize_factors c st wz im d =
        (Inr (), map (\<lambda>(n, p). (n, if n \<in> set (map fst d) then spec_standardize c st wz im p else p)) d)"
    unfolding standarize_factors_def using assms by (intro standarize_loop_valid) auto
  also have "map (\<lambda>(n, p). (n, if n \<in> set (map fst d) then spec_standardize c st wz im p else p)) d
           = map (\<lambda>(n, p). (n, spec_standardize c st wz im p)) d"
    by (rule map_cong) force+
  finally show ?thesis .
qed

lemma standarize_factors_invalid:
  assumes "st \<notin> {None, Some ''z_score'', Some ''rank''}" and "d \<noteq> []"
  shows "standarize_factors c st wz im d =
         (Inl BadStandardizeType,
          dict_set (fst (hd d)) (spec_standardize c None wz im (snd (hd d))) d)"
proof -
  from assms(2) obtain name p rest where d: "d = (name, p) # rest" by (cases d) auto
  with assms(1) show ?thesis
    by (simp add: standarize_factors_def Let_def spec_standardize_def)
qed

lemma combine_equal_weight:
  assumes st: "st \<in> {None, Some ''z_score'', Some ''rank''}" and dist: "distinct (map fst d)"
    and len: "2 \<le> length d"
  shows "combine_factors c lw d st wz im ''equal_weight'' props =
         (Inr (spec_standardize c st wz im
                (foldl sum_weighted_factors (spec_standardize c st wz im (snd (hd d)))
                   (map (\<lambda>(n, p). spec_standardize c st wz im p) (tl d)))),
          map (\<lambda>(n, p). (n, spec_standardize c st wz im p)) d)"
proof -
  from len obtain n1 p1 rest where d: "d = (n1, p1) # rest" by (cases d) auto
  have f: "standarize_factors c st wz im [(''factor'', x)] =
           (Inr (), [(''factor'', spec_standardize c st wz im x)])" for x
    using standarize_factors_valid [OF st, of "[(''factor'', x)]"] by simp
  from len show ?thesis
    unfolding combine_factors_def standarize_factors_valid [OF st dist]
    by (auto simp: d f Let_def comp_def case_prod_unfold)
qed

text \<open>
  C5. With \<open>weighted_method="equal_weight"\<close> and a \<open>standardize_type\<close> that is accepted,
  \<open>combine_factors\<close> on the two factors \<open>A\<close> and \<open>B\<close> returns
  \<open>standardize(standardize(A) + standardize(B))\<close>, whichever of the two comes first in the
  dict.
\<close>

theorem equal_weight_combination:
  assumes "a \<noteq> b" and "st \<in> {None, Some ''z_score'', Some ''rank''}"
  shows "fst (combine_factors c lw [(a, A), (b, B)] st wz im ''equal_weight'' props) =
           Inr (spec_standardize c st wz im
                  (sum_weighted_factors (spec_standardize c st wz im A)
                     (spec_standardize c st wz im B)))
       \<and> fst (combine_factors c lw [(b, B), (a, A)] st wz im ''equal_weight'' props) =
           fst (combine_factors c lw [(a, A), (b, B)] st wz im ''equal_weight'' props)"
proof -
  have 1: "fst (combine_factors c lw [(a, A), (b, B)] st wz im ''equal_weight'' props) =
           Inr (spec_standardize c st wz im
                  (sum_weighted_factors (spec_standardize c st wz im A)
                     (spec_standardize c st wz im B)))"
    using assms by (subst combine_equal_weight) simp_all
  have 2: "fst (combine_factors c lw [(b, B), (a, A)] st wz im ''equal_weight'' props) =
           Inr (spec_standardize c st wz im
                  (sum_weighted_factors (spec_standardize c st wz im B)
                     (spec_standardize c st wz im A)))"
    using assms by (subst combine_equal_weight) auto
  from 1 2 show ?thesis
    by (simp add: sum_weighted_factors_commute [of "spec_standardize c st wz im B"])
qed

theorem equal_weight_combination_witness:
  "''A'' \<noteq> ''B''
   \<and> fst (combine_factors example_collab (\<lambda>X. None)
         [(''A'', \<lparr>columns = [''x'', ''y''], rows = [(1, [Num 1, PosInf]), (2, [Num 2, Num 3])]\<rparr>),
          (''B'', \<lparr>columns = [''x'', ''y''], rows = [(1, [Num 10, Num 20]), (2, [Num 30, Num 40])]\<rparr>)]
         None False None ''equal_weight'' (generate_props ()))
     = Inr \<lparr>columns = [''x'', ''y''], rows = [(1, [Num 11, NaN]), (2, [Num 32, Num 43])]\<rparr>
   \<and> fst (combine_factors example_collab (\<lambda>X. None)
         [(''B'', \<lparr>columns = [''x'', ''y''], rows = [(1, [Num 10, Num 20]), (2, [Num 30, Num 40])]\<rparr>),
          (''A'', \<lparr>columns = [''x'', ''y''], rows = [(1, [Num 1, PosInf]), (2, [Num 2, Num 3])]\<rparr>)]
         None False None ''equal_weight'' (generate_props ()))
     = Inr \<lparr>columns = [''x'', ''y''], rows = [(1, [Num 11, NaN]), (2, [Num 32, Num 43])]\<rparr>"
proof -
  have ab: "''A'' \<noteq> ''B''" by simp
  have st: "(None :: string option) \<in> {None, Some ''z_score'', Some ''rank''}" by simp
  from equal_weight_combination [OF ab st, of example_collab "\<lambda>X. None"
      "\<lparr>columns = [''x'', ''y''], rows = [(1, [Num 1, PosInf]), (2, [Num 2, Num 3])]\<rparr>"
      "\<lparr>columns = [''x'', ''y''], rows = [(1, [Num 10, Num 20]), (2, [Num 30, Num 40])]\<rparr>"
      False None "generate_props ()"]
  show ?thesis by (simp add: combine_eval)
qed

section \<open>Validation errors\<close>

lemma ic_loop_missing:
  "distinct (map fst d) \<Longrightarrow> distinct (ns1 @ [name]) \<Longrightarrow> set (ns1 @ [name]) \<subseteq> fst ` set d \<Longrightarrow>
   \<forall>n\<in>set ns1. rt \<in> set (signal_columns c (get_signal_data c sc (fillinf c (the (map_of d n))))) \<Longrightarrow>
   rt \<notin> set (signal_columns c (get_signal_data c sc (fillinf c (the (map_of d name))))) \<Longrightarrow>
   ic_loop c sc rt (ns1 @ name # ns2) d tbl =
     (Inl MissingReturnColumn,
      map (\<lambda>(n, q). (n, if n \<in> set (ns1 @ [name]) then fillinf c q else q)) d)"
proof (induction ns1 arbitrary: d tbl)
  case Nil
  from Nil.prems(3) obtain p where p: "map_of d name = Some p"
    by (cases "map_of d name") (auto simp: map_of_eq_None_iff)
  from Nil.prems(5) p
  have "ic_loop c sc rt (name # ns2) d tbl = (Inl MissingReturnColumn, dict_set name (fillinf c p) d)"
    by (simp add: Let_def)
  also have "dict_set name (fillinf c p) d
      = map (\<lambda>(n, q). if n = name then (n, fillinf c p) else (n, q)) d"
    using Nil.prems(1) p by (rule dict_set_map)
  also have "\<dots> = map (\<lambda>(n, q). (n, if n \<in> set ([] @ [name]) then fillinf c q else q)) d"
  proof -
    have "q = p" if "(name, q) \<in> set d" for q using that Nil.prems(1) p by simp
    then show ?thesis by (auto simp: case_prod_unfold)
  qed
  finally show ?case by simp
next
  case (Cons n ns1)
  from Cons.prems(3) obtain p where p: "map_of d n = Some p"
    by (cases "map_of d n") (auto simp: map_of_eq_None_iff)
  let ?d1 = "dict_set n (fillinf c p) d"
  let ?x = "(n, calc_signal_ic c (get_signal_data c sc (fillinf c p)) rt)"
  have keys: "map fst ?d1 = map fst d" using p by (simp add: dict_set_keys)
  have d1: "?d1 = map (\<lambda>(m, q). if m = n then (m, fillinf c p) else (m, q)) d"
    using Cons.prems(1) p by (rule dict_set_map)
  have other: "map_of ?d1 m = map_of d m" if "m \<noteq> n" for m
    using that by (simp add: map_of_dict_set)
  from Cons.prems(4) p
  have "ic_loop c sc rt ((n # ns1) @ name # ns2) d tbl
        = ic_loop c sc rt (ns1 @ name # ns2) ?d1 (tbl @ [?x])"
    by (simp add: Let_def)
  also have "\<dots> = (Inl MissingReturnColumn,
      map (\<lambda>(m, q). (m, if m \<in> set (ns1 @ [name]) then fillinf c q else q)) ?d1)"
  proof (rule Cons.IH)
    show "distinct (map fst ?d1)" using Cons.prems(1) keys by simp
    show "distinct (ns1 @ [name])" using Cons.prems(2) by simp
    have "fst ` set ?d1 = fst ` set d" using keys by (metis list.set_map)
    with Cons.prems(3) show "set (ns1 @ [name]) \<subseteq> fst ` set ?d1" by simp
    show "\<forall>m\<in>set ns1. rt \<in> set (signal_columns c (get_signal_data c sc (fillinf c (the (map_of ?d1 m)))))"
    proof
      fix m assume m: "m \<in> set ns1"
      with Cons.prems(2) have "m \<noteq> n" by auto
      with Cons.prems(4) m other [of m]
      show "rt \<in> set (signal_columns c (get_signal_data c sc (fillinf c (the (map_of ?d1 m)))))"
        by simp
    qed
    show "rt \<notin> set (signal_columns c (get_signal_data c sc (fillinf c (the (map_of ?d1 name)))))"
      using Cons.prems(2,5) other by auto
  qed
  also have "map (\<lambda>(m, q). (m, if m \<in> set (ns1 @ [name]) then fillinf c q else q)) ?d1
      = map (\<lambda>(m, q). (m, if m \<in> set ((n # ns1) @ [name]) then fillinf c q else q)) d"
  proof -
    have "q = p" if "(n, q) \<in> set d" for q using that Cons.prems(1) p by simp
    with Cons.prems(2) show ?thesis unfolding d1 by (auto simp: case_prod_unfold)
  qed
  finally show ?case .
qed

lemma get_factors_ic_df_missing:
  assumes dist: "distinct (map fst (pre @ (name, p) # post))"
    and rt: "rt \<in> {''return'', ''upside_ret'', ''downside_ret''}"
    and pre: "\<forall>(n, q)\<in>set pre. rt \<in> set (signal_columns c (get_signal_data c sc (fillinf c q)))"
    and miss: "rt \<notin> set (signal_columns c (get_signal_data c sc (fillinf c p)))"
  shows "get_factors_ic_df c (pre @ (name, p) # post) sc (Some rt) =
         (Inl MissingReturnColumn,
          map (\<lambda>(n, q). (n, fillinf c q)) pre @ (name, fillinf c p) # post)"
proof -
  let ?d = "pre @ (name, p) # post"
  have look: "map_of ?d n = Some q" if "(n, q) \<in> set ?d" for n q
    using that dist by (intro map_of_is_SomeI) auto
  have "ic_loop c sc rt (map fst pre @ name # map fst post) ?d [] =
     (Inl MissingReturnColumn,
      map (\<lambda>(n, q). (n, if n \<in> set (map fst pre @ [name]) then fillinf c q else q)) ?d)"
  proof (rule ic_loop_missing)
    show "distinct (map fst ?d)" by (rule dist)
    show "distinct (map fst pre @ [name])" using dist by auto
    show "set (map fst pre @ [name]) \<subseteq> fst ` set ?d" by force
    show "\<forall>n\<in>set (map fst pre). rt \<in> set (signal_columns c (get_signal_data c sc (fillinf c (the (map_of ?d n)))))"
    proof
      fix n assume "n \<in> set (map fst pre)"
      then obtain q where q: "(n, q) \<in> set pre" by auto
      then have "map_of ?d n = Some q" by (intro look) simp
      with pre q show "rt \<in> set (signal_columns c (get_signal_data c sc (fillinf c (the (map_of ?d n)))))"
        by auto
    qed
    have "map_of ?d name = Some p" by (intro look) simp
    with miss show "rt \<notin> set (signal_columns c (get_signal_data c sc (fillinf c (the (map_of ?d name)))))"
      by simp
  qed
  moreover have "map (\<lambda>(n, q). (n, if n \<in> set (map fst pre @ [name]) then fillinf c q else q)) ?d
      = map (\<lambda>(n, q). (n, fillinf c q)) pre @ (name, fillinf c p) # post"
  proof -
    have "map (\<lambda>(n, q). (n, if n \<in> set (map fst pre @ [name]) then fillinf c q else q)) pre
          = map (\<lambda>(n, q). (n, fillinf c q)) pre"
      by (rule map_cong) force+
    moreover have "map (\<lambda>(n, q). (n, if n \<in> set (map fst pre @ [name]) then fillinf c q else q)) post
          = post"
    proof (rule map_idI)
      fix x assume "x \<in> set post"
      with dist have "fst x \<notin> set (map fst pre @ [name])" by force
      then show "(case x of (n, q) \<Rightarrow> (n, if n \<in> set (map fst pre @ [name]) then fillinf c q else q)) = x"
        by (cases x) simp
    qed
    ultimately show ?thesis by simp
  qed
  ultimately show ?thesis
    using rt by (auto simp: get_factors_ic_df_def)
qed

text \<open>
  C6 (amended). Every validation error aborts the call. The checks for fewer than two
  factors and for the return type come first and leave the caller's dict as it was. The
  other errors come after the dict has been updated in place: an unknown \<open>standardize_type\<close>
  after the first factor has been sanitized, masked and winsorized; an unknown
  \<open>weighted_method\<close> after every factor has been standardized; a missing return column after
  the factors up to and including the one that lacks it have been sanitized.
\<close>

theorem validation_errors_and_the_callers_dict:
  "(length factors_dict < 2 \<longrightarrow>
      orthogonalize c factors_dict st0 wz im = (Inl TooFewFactors, factors_dict)
    \<and> combine_factors c lw factors_dict st wz im wm props = (Inl TooFewFactors, factors_dict))
 \<and> (r \<notin> {''return'', ''upside_ret'', ''downside_ret''} \<longrightarrow>
      get_factors_ic_df c factors_dict sc (Some r) = (Inl UnsupportedRetType, factors_dict))
 \<and> (2 \<le> length factors_dict \<and> st \<notin> {None, Some ''z_score'', Some ''rank''} \<longrightarrow>
      combine_factors c lw factors_dict st wz im wm props =
        (Inl BadStandardizeType,
         dict_set (fst (hd factors_dict)) (spec_standardize c None wz im (snd (hd factors_dict)))
           factors_dict))
 \<and> (2 \<le> length factors_dict \<and> distinct (map fst factors_dict)
      \<and> st \<in> {None, Some ''z_score'', Some ''rank''}
      \<and> wm \<notin> {''max_IR'', ''max_IC'', ''ic_weight'', ''ir_weight'', ''equal_weight''} \<longrightarrow>
      combine_factors c lw factors_dict st wz im wm props =
        (Inl BadWeightedMethod, map (\<lambda>(n, p). (n, spec_standardize c st wz im p)) factors_dict))
 \<and> (factors_dict = pre @ (name, p) # post \<and> distinct (map fst factors_dict)
      \<and> r \<in> {''return'', ''upside_ret'', ''downside_ret''}
      \<and> (\<forall>(n, q)\<in>set pre. r \<in> set (signal_columns c (get_signal_data c sc (fillinf c q))))
      \<and> r \<notin> set (signal_columns c (get_signal_data c sc (fillinf c p))) \<longrightarrow>
      get_factors_ic_df c factors_dict sc (Some r) =
        (Inl MissingReturnColumn,
         map (\<lambda>(n, q). (n, fillinf c q)) pre @ (name, fillinf c p) # post))"
proof (intro conjI impI)
  assume "length factors_dict < 2"
  then show "orthogonalize c factors_dict st0 wz im = (Inl TooFewFactors, factors_dict)"
    by (simp add: orthogonalize_def)
  from \<open>length factors_dict < 2\<close>
  show "combine_factors c lw factors_dict st wz im wm props = (Inl TooFewFactors, factors_dict)"
    by (simp add: combine_factors_def)
next
  assume "r \<notin> {''return'', ''upside_ret'', ''downside_ret''}"
  then show "get_factors_ic_df c factors_dict sc (Some r) = (Inl UnsupportedRetType, factors_dict)"
    by (simp add: get_factors_ic_df_def)
next
  assume a: "2 \<le> length factors_dict \<and> st \<notin> {None, Some ''z_score'', Some ''rank''}"
  then have "factors_dict \<noteq> []" by auto
  with a standarize_factors_invalid [of st factors_dict c wz im]
  show "combine_factors c lw factors_dict st wz im wm props =
        (Inl BadStandardizeType,
         dict_set (fst (hd factors_dict)) (spec_standardize c None wz im (snd (hd factors_dict)))
           factors_dict)"
    by (simp add: combine_factors_def)
next
  assume a: "2 \<le> length factors_dict \<and> distinct (map fst factors_dict)
      \<and> st \<in> {None, Some ''z_score'', Some ''rank''}
      \<and> wm \<notin> {''max_IR'', ''max_IC'', ''ic_weight'', ''ir_weight'', ''equal_weight''}"
  then have "standarize_factors c st wz im factors_dict =
         (Inr (), map (\<lambda>(n, p). (n, spec_standardize c st wz im p)) factors_dict)"
    by (intro standarize_factors_valid) simp_all
  with a show "combine_factors c lw factors_dict st wz im wm props =
        (Inl BadWeightedMethod, map (\<lambda>(n, p). (n, spec_standardize c st wz im p)) factors_dict)"
    by (simp add: combine_factors_def)
next
  assume a: "factors_dict = pre @ (name, p) # post \<and> distinct (map fst factors_dict)
      \<and> r \<in> {''return'', ''upside_ret'', ''downside_ret''}
      \<and> (\<forall>(n, q)\<in>set pre. r \<in> set (signal_columns c (get_signal_data c sc (fillinf c q))))
      \<and> r \<notin> set (signal_columns c (get_signal_data c sc (fillinf c p)))"
  then show "get_factors_ic_df c factors_dict sc (Some r) =
        (Inl MissingReturnColumn,
         map (\<lambda>(n, q). (n, fillinf c q)) pre @ (name, fillinf c p) # post)"
    using get_factors_ic_df_missing [of pre name p post r c sc] by blast
qed

theorem validation_errors_and_the_callers_dict_witness:
  "''bogus'' \<notin> {''max_IR'', ''max_IC'', ''ic_weight'', ''ir_weight'', ''equal_weight''}
   \<and> combine_factors example_collab (\<lambda>X. None)
     [(''A'', \<lparr>columns = [''x'', ''y''], rows = [(1, [Num 1, PosInf]), (2, [Num 2, Num 3])]\<rparr>),
      (''B'', \<lparr>columns = [''x'', ''y''], rows = [(1, [Num 10, Num 20]), (2, [Num 30, Num 40])]\<rparr>)]
     None False None ''bogus'' (generate_props ())
   = (Inl BadWeightedMethod,
      map (\<lambda>(n, p). (n, spec_standardize example_collab None False None p))
     [(''A'', \<lparr>columns = [''x'', ''y''], rows = [(1, [Num 1, PosInf]), (2, [Num 2, Num 3])]\<rparr>),
      (''B'', \<lparr>columns = [''x'', ''y''], rows = [(1, [Num 10, Num 20]), (2, [Num 30, Num 40])]\<rparr>)])"
proof -
  let ?fd = "[(''A'', \<lparr>columns = [''x'', ''y''], rows = [(1 :: date, [Num 1, PosInf]), (2, [Num 2, Num 3])]\<rparr>),
      (''B'', \<lparr>columns = [''x'', ''y''], rows = [(1, [Num 10, Num 20]), (2, [Num 30, Num 40])]\<rparr>)]"
  have a: "2 \<le> length ?fd \<and> distinct (map fst ?fd)
      \<and> (None :: string option) \<in> {None, Some ''z_score'', Some ''rank''}
      \<and> ''bogus'' \<notin> {''max_IR'', ''max_IC'', ''ic_weight'', ''ir_weight'', ''equal_weight''}"
    by simp
  from validation_errors_and_the_callers_dict
         [where factors_dict = ?fd and st = None and wm = "''bogus''" and c = example_collab
            and lw = "\<lambda>X. None" and wz = False and im = None and props = "generate_props ()",
          THEN conjunct2, THEN conjunct2, THEN conjunct2, THEN conjunct1, rule_format, OF a] a
  show ?thesis by blast
qed

text \<open>
  An unknown \<open>weighted_method\<close>: the error is raised, and the infinite value of factor \<open>A\<close>
  in the caller's dict has been replaced.
\<close>

theorem bad_weighted_method_counterexample:
  "combine_factors example_collab (\<lambda>X. None)
     [(''A'', \<lparr>columns = [''x'', ''y''], rows = [(1, [Num 1, PosInf]), (2, [Num 2, Num 3])]\<rparr>),
      (''B'', \<lparr>columns = [''x'', ''y''], rows = [(1, [Num 10, Num 20]), (2, [Num 30, Num 40])]\<rparr>)]
     None False None ''bogus'' (generate_props ())
   = (Inl BadWeightedMethod,
      [(''A'', \<lparr>columns = [''x'', ''y''], rows = [(1, [Num 1, NaN]), (2, [Num 2, Num 3])]\<rparr>),
       (''B'', \<lparr>columns = [''x'', ''y''], rows = [(1, [Num 10, Num 20]), (2, [Num 30, Num 40])]\<rparr>)])
   \<and> [(''A'', \<lparr>columns = [''x'', ''y''], rows = [(1 :: date, [Num 1, NaN]), (2, [Num 2, Num 3])]\<rparr>),
       (''B'', \<lparr>columns = [''x'', ''y''], rows = [(1, [Num 10, Num 20]), (2, [Num 30, Num 40])]\<rparr>)]
     \<noteq> [(''A'', \<lparr>columns = [''x'', ''y''], rows = [(1, [Num 1, PosInf]), (2, [Num 2, Num 3])]\<rparr>),
       (''B'', \<lparr>columns = [''x'', ''y''], rows = [(1, [Num 10, Num 20]), (2, [Num 30, Num 40])]\<rparr>)]"
  by (simp add: combine_factors_def standarize_factors_def example_collab_def fillinf_nan_def Let_def)

section \<open>The return type\<close>

text \<open>
  C7 (amended). \<open>get_factors_ic_df\<close> raises a validation error for every \<open>ret_type\<close> string
  outside \<open>"return"\<close>, \<open>"upside_ret"\<close>, \<open>"downside_ret"\<close>, before anything else is done. The
  value \<open>None\<close> is not rejected: the call goes on as it does for \<open>"return"\<close>.
\<close>

theorem unsupported_ret_type_raises:
  "(r \<notin> {''return'', ''upside_ret'', ''downside_ret''} \<longrightarrow>
      get_factors_ic_df c factors_dict sc (Some r) = (Inl UnsupportedRetType, factors_dict))
   \<and> get_factors_ic_df c factors_dict sc None = get_factors_ic_df c factors_dict sc (Some ''return'')"
  by (simp add: get_factors_ic_df_def)

theorem unsupported_ret_type_raises_witness:
  "''ret'' \<notin> {''return'', ''upside_ret'', ''downside_ret''}
   \<and> get_factors_ic_df example_collab
         [(''f1'', \<lparr>columns = [''x'', ''y''], rows = [(1, [Num 1, PosInf]), (2, [Num 2, Num 3])]\<rparr>)]
         (\<lparr>columns = [], rows = []\<rparr>, None, None, 5, ()) (Some ''ret'')
       = (Inl UnsupportedRetType,
          [(''f1'', \<lparr>columns = [''x'', ''y''], rows = [(1, [Num 1, PosInf]), (2, [Num 2, Num 3])]\<rparr>)])"
proof -
  have a: "''ret'' \<notin> {''return'', ''upside_ret'', ''downside_ret''}" by simp
  from unsupported_ret_type_raises [THEN conjunct1, rule_format, OF a] a
  show ?thesis by blast
qed

text \<open>
  \<open>ret_type=None\<close> is outside the set, and the call returns an IC matrix.
\<close>

theorem ret_type_none_counterexample:
  "None \<notin> {Some ''return'', Some ''upside_ret'', Some ''downside_ret''}
   \<and> get_factors_ic_df example_collab
         [(''f1'', \<lparr>columns = [''x'', ''y''], rows = [(1, [Num 1, PosInf]), (2, [Num 2, Num 3])]\<rparr>)]
         (\<lparr>columns = [], rows = []\<rparr>, None, None, 5, ()) None
       = (Inr \<lparr>columns = [''f1''], rows = [(1, [Num (1 / 2)]), (2, [Num (1 / 2)])]\<rparr>,
          [(''f1'', \<lparr>columns = [''x'', ''y''], rows = [(1, [Num 1, NaN]), (2, [Num 2, Num 3])]\<rparr>)])"
  by (simp add: ic_eval)

section \<open>The covariance estimate\<close>


section \<open>The dates that orthogonalize skips\<close>

text \<open>
  C9. \<open>orthogonalize\<close> skips a date exactly when the inner join of the factors' rows is
  empty; the test comes before \<open>dropna\<close>. On a date where one factor is \<open>nan\<close> for every
  asset the join is not empty, \<open>dropna\<close> leaves no asset, and the date is not skipped:
  \<open>linalg.orth\<close> is called on a matrix without rows, and the date ends in an error or in a
  row, as that call decides.
\<close>

theorem orth_date_skips_before_dropna:
  "(orth_date c factor_value_list date = Inr None) =
     (\<exists>vectors. get_vectors factor_value_list date = Inr vectors \<and> concat_inner vectors = [])
   \<and> get_vectors
        [\<lparr>columns = [''x'', ''y''], rows = [(1 :: date, [NaN, NaN])]\<rparr>,
         \<lparr>columns = [''x'', ''y''], rows = [(1, [Num 1, Num 2])]\<rparr>] 1
       = Inr [[(''x'', NaN), (''y'', NaN)], [(''x'', Num 1), (''y'', Num 2)]]
   \<and> dropna (concat_inner [[(''x'', NaN), (''y'', NaN)], [(''x'', Num 1), (''y'', Num 2)]]) = []
   \<and> orth_date c
        [\<lparr>columns = [''x'', ''y''], rows = [(1, [NaN, NaN])]\<rparr>,
         \<lparr>columns = [''x'', ''y''], rows = [(1, [Num 1, Num 2])]\<rparr>] 1
       = (case orth c [[], []] of
            Inl e \<Rightarrow> Inl e
          | Inr q \<Rightarrow> if list_ex (\<lambda>col. length col \<noteq> 0) q then Inl LengthMismatch
                     else if length q \<noteq> 2 then Inl LengthMismatch
                     else Inr (Some ([], q)))
   \<and> orth_date c
        [\<lparr>columns = [''x'', ''y''], rows = [(1, [NaN, NaN])]\<rparr>,
         \<lparr>columns = [''x'', ''y''], rows = [(1, [Num 1, Num 2])]\<rparr>] 1
       \<noteq> Inr None"
proof (intro conjI)
  show "(orth_date c factor_value_list date = Inr None) =
     (\<exists>vectors. get_vectors factor_value_list date = Inr vectors \<and> concat_inner vectors = [])"
    by (auto simp: orth_date_def Let_def split: sum.splits if_splits)
qed (simp_all add: orth_date_def Schmidt_def get_vector_def loc_def concat_inner_def dropna_def
       cols_of_def Let_def split: sum.splits)

section \<open>The rows of the IC matrix\<close>

lemma ic_loop_length:
  "ic_loop c sc rt names d tbl = (Inr tbl', d') \<Longrightarrow> length tbl' = length tbl + length names"
  by (induction names arbitrary: d tbl)
     (auto simp: Let_def split: option.splits if_splits)

lemma reindex_index: "index (reindex cols m labels) = labels"
  by (simp add: reindex_def index_def comp_def)

lemma dropna_rows_Some:
  "dropna_rows m t = Some r \<Longrightarrow> m t = Some r \<and> list_all (\<lambda>x. \<not> isnan x) r"
  by (auto simp: dropna_rows_def list_all_iff list_ex_iff split: option.splits if_splits)

lemma ic_concat_Some: "ic_concat tbl t = Some r \<Longrightarrow> length r = length tbl"
  by (auto simp: ic_concat_def split: if_splits)

lemma reindex_row:
  assumes "(d, r) \<in> set (rows (reindex cols (dropna_rows (ic_concat tbl)) labels))"
    and "length cols = length tbl"
  shows "length r = length tbl \<and> (list_all (\<lambda>x. \<not> isnan x) r \<or> list_all isnan r)"
proof (cases "dropna_rows (ic_concat tbl) d")
  case None
  with assms have "r = replicate (length tbl) NaN" by (auto simp: reindex_def)
  then show ?thesis by (simp add: list_all_iff)
next
  case (Some r')
  with assms have "r = r'" by (auto simp: reindex_def)
  with dropna_rows_Some [OF Some] ic_concat_Some show ?thesis by blast
qed

text \<open>The IC table after the loop: one series per factor, computed from the sanitized panel.\<close>

lemma ic_loop_table:
  "ic_loop c sc rt names d tbl = (Inr tbl', d') \<Longrightarrow> distinct names \<Longrightarrow>
   tbl' = tbl @ map (\<lambda>name. (name,
            calc_signal_ic c (get_signal_data c sc (fillinf c (the (map_of d name)))) rt)) names"
proof (induction names arbitrary: d tbl)
  case Nil
  then show ?case by simp
next
  case (Cons name names)
  from Cons.prems(1) obtain p where p: "map_of d name = Some p"
    by (cases "map_of d name") auto
  let ?d1 = "dict_set name (fillinf c p) d"
  let ?x = "(name, calc_signal_ic c (get_signal_data c sc (fillinf c p)) rt)"
  from Cons.prems(1) p have "ic_loop c sc rt names ?d1 (tbl @ [?x]) = (Inr tbl', d')"
    by (auto simp: Let_def split: if_splits)
  from Cons.IH [OF this] Cons.prems(2)
  have "tbl' = (tbl @ [?x]) @ map (\<lambda>n. (n,
            calc_signal_ic c (get_signal_data c sc (fillinf c (the (map_of ?d1 n)))) rt)) names"
    by simp
  also have "map (\<lambda>n. (n,
            calc_signal_ic c (get_signal_data c sc (fillinf c (the (map_of ?d1 n)))) rt)) names
      = map (\<lambda>n. (n,
            calc_signal_ic c (get_signal_data c sc (fillinf c (the (map_of d n)))) rt)) names"
    using Cons.prems(2) by (auto simp: map_of_dict_set)
  finally show ?case using p by simp
qed

lemma ic_table_member:
  assumes loop: "ic_loop c sc rt (map fst factors_dict) factors_dict [] = (Inr tbl, d)"
    and dist: "distinct (map fst factors_dict)" and mem: "(name, p) \<in> set factors_dict"
  shows "(name, calc_signal_ic c (get_signal_data c sc (fillinf c p)) rt) \<in> set tbl"
proof -
  from dist mem have "map_of factors_dict name = Some p" by simp
  moreover from mem have "name \<in> set (map fst factors_dict)" by force
  ultimately show ?thesis
    unfolding ic_loop_table [OF loop dist] by force
qed

lemma dropna_concat_member:
  assumes "dropna_rows (ic_concat tbl) t = Some r" and "(name, ic) \<in> set tbl"
  shows "\<exists>v. ic t = Some v \<and> \<not> isnan v"
proof -
  from dropna_rows_Some [OF assms(1)]
  have r: "ic_concat tbl t = Some r" and nn: "list_all (\<lambda>x. \<not> isnan x) r" by simp_all
  from r have "r = map (\<lambda>(name, ic). case ic t of None \<Rightarrow> NaN | Some v \<Rightarrow> v) tbl"
    by (auto simp: ic_concat_def split: if_splits)
  with nn assms(2) have "\<not> isnan (case ic t of None \<Rightarrow> NaN | Some v \<Rightarrow> v)"
    by (force simp: list_all_iff)
  then show ?thesis by (cases "ic t") auto
qed

text \<open>
  C10. The index of the IC matrix that \<open>get_factors_ic_df\<close> returns is the sorted union of
  the dates of the factor panels, and every row has one entry per factor and is all-or-nothing:
  no entry is \<open>nan\<close>, or every entry is. With distinct factor names, a date on which some
  factor has no IC, or has a \<open>nan\<close> IC, has an all-\<open>nan\<close> row.
\<close>

theorem ic_rows_all_or_nothing:
  assumes "fst (get_factors_ic_df c factors_dict sc rt0) = Inr ic_df"
  shows "index ic_df = sort (remdups (concat (map (\<lambda>(name, p). index p) factors_dict)))
       \<and> sorted (index ic_df) \<and> distinct (index ic_df)
       \<and> set (index ic_df) = (\<Union>(name, p)\<in>set factors_dict. set (index p))
       \<and> (\<forall>(d, r)\<in>set (rows ic_df).
             length r = length factors_dict
           \<and> (list_all (\<lambda>x. \<not> isnan x) r \<or> list_all isnan r))
       \<and> (distinct (map fst factors_dict) \<longrightarrow>
            (\<forall>(d, r)\<in>set (rows ic_df). \<forall>(name, p)\<in>set factors_dict.
               (case calc_signal_ic c (get_signal_data c sc (fillinf c p))
                       (case rt0 of None \<Rightarrow> ''return'' | Some r \<Rightarrow> r) d of
                  None \<Rightarrow> True | Some v \<Rightarrow> isnan v)
               \<longrightarrow> list_all isnan r))"
proof -
  define rt where "rt = (case rt0 of None \<Rightarrow> ''return'' | Some r \<Rightarrow> r)"
  from assms obtain tbl d where
    loop: "ic_loop c sc rt (map fst factors_dict) factors_dict [] = (Inr tbl, d)"
    and ic: "ic_df = reindex (map fst tbl) (dropna_rows (ic_concat tbl)) (times_of factors_dict)"
    by (auto simp: get_factors_ic_df_def Let_def rt_def split: if_splits prod.splits sum.splits)
  from ic_loop_length [OF loop] have len: "length tbl = length factors_dict" by simp
  have idx: "index ic_df = sort (remdups (concat (map (\<lambda>(name, p). index p) factors_dict)))"
    by (simp add: ic reindex_index times_of_def)
  have rows: "\<forall>(d, r)\<in>set (rows ic_df).
             length r = length factors_dict
           \<and> (list_all (\<lambda>x. \<not> isnan x) r \<or> list_all isnan r)"
    using reindex_row [of _ _ "map fst tbl" tbl "times_of factors_dict"] len
    unfolding ic by auto
  have lack: "list_all isnan r"
    if dist: "distinct (map fst factors_dict)" and row: "(t, r) \<in> set (rows ic_df)"
      and mem: "(name, p) \<in> set factors_dict"
      and no_ic: "case calc_signal_ic c (get_signal_data c sc (fillinf c p)) rt t of
                    None \<Rightarrow> True | Some v \<Rightarrow> isnan v"
    for t r name p
  proof (cases "dropna_rows (ic_concat tbl) t")
    case None
    with row have "r = replicate (length tbl) NaN" by (auto simp: ic reindex_def)
    then show ?thesis by (simp add: list_all_iff)
  next
    case (Some r')
    from dropna_concat_member [OF Some ic_table_member [OF loop dist mem]] no_ic
    show ?thesis by auto
  qed
  have sd: "sorted (index ic_df) \<and> distinct (index ic_df)
       \<and> set (index ic_df) = (\<Union>(name, p)\<in>set factors_dict. set (index p))"
    unfolding idx by auto
  have lack2: "list_all isnan (snd x)"
    if "distinct (map fst factors_dict)" and "x \<in> set (rows ic_df)" and "y \<in> set factors_dict"
      and "case calc_signal_ic c (get_signal_data c sc (fillinf c (snd y))) rt (fst x) of
             None \<Rightarrow> True | Some v \<Rightarrow> isnan v"
    for x y
    using lack [OF that(1), of "fst x" "snd x" "fst y" "snd y"] that by simp
  from idx rows sd lack2 show ?thesis
    unfolding rt_def [symmetric] by (simp add: case_prod_unfold) blast
qed

theorem ic_rows_all_or_nothing_witness:
  "fst (get_factors_ic_df example_collab
         [(''f1'', \<lparr>columns = [''x'', ''y''], rows = [(1, [Num 1, Num 4]), (2, [Num 2, Num 3])]\<rparr>),
          (''f2'', \<lparr>columns = [''x'', ''y''], rows = [(2, [Num 5, Num 1]), (3, [Num (1 / 4), Num (1 / 4)])]\<rparr>)]
         (\<lparr>columns = [], rows = []\<rparr>, None, None, 5, ()) None)
     = Inr \<lparr>columns = [''f1'', ''f2''],
            rows = [(1, [NaN, NaN]), (2, [Num (1 / 2), Num (1 / 2)]), (3, [NaN, NaN])]\<rparr>
   \<and> index \<lparr>columns = [''f1'', ''f2''],
             rows = [(1 :: date, [NaN, NaN]), (2, [Num (1 / 2), Num (1 / 2)]), (3, [NaN, NaN])]\<rparr>
       = sort (remdups (concat (map (\<lambda>(name, p). index p)
           [(''f1'', \<lparr>columns = [''x'', ''y''], rows = [(1 :: date, [Num 1, Num 4]), (2, [Num 2, Num 3])]\<rparr>),
            (''f2'', \<lparr>columns = [''x'', ''y''], rows = [(2, [Num 5, Num 1]), (3, [Num (1 / 4), Num (1 / 4)])]\<rparr>)])))"
proof -
  let ?fd = "[(''f1'', \<lparr>columns = [''x'', ''y''], rows = [(1 :: date, [Num 1, Num 4]), (2, [Num 2, Num 3])]\<rparr>),
          (''f2'', \<lparr>columns = [''x'', ''y''], rows = [(2, [Num 5, Num 1]), (3, [Num (1 / 4), Num (1 / 4)])]\<rparr>)]"
  have e: "fst (get_factors_ic_df example_collab ?fd (\<lparr>columns = [], rows = []\<rparr>, None, None, 5, ()) None)
     = Inr \<lparr>columns = [''f1'', ''f2''],
            rows = [(1, [NaN, NaN]), (2, [Num (1 / 2), Num (1 / 2)]), (3, [NaN, NaN])]\<rparr>"
    by (simp add: ic_eval)
  from ic_rows_all_or_nothing [OF e] e show ?thesis by blast
qed

end
